theory Spec2Isabelle
  imports Main "HOL-Library.Sublist"
begin

section \<open>Values exchanged with the backend\<close>

text \<open>
  An error value as the client code inspects it (\<open>error: any\<close> in \<open>supabase.ts\<close> and
  \<open>db.ts\<close>): whether it is an instance of \<open>TypeError\<close>, its \<open>message\<close> and its
  \<open>code\<close>. A missing property is \<open>None\<close>; both properties are strings when present,
  as they are for the SDK's structured errors and for \<open>Error\<close> objects. A falsy error
  (\<open>null\<close>, \<open>undefined\<close>) is \<open>None\<close> of type \<open>js_error option\<close>.
\<close>

record js_error =
  is_type_error :: bool
  message :: "string option"
  code :: "string option"

text \<open>
  The value a query resolves with, \<open>{ data, error }\<close>; \<open>data = None\<close> is \<open>null\<close>.
\<close>

record 'd query_result =
  data :: "'d option"
  error :: "js_error option"

text \<open>
  What awaiting a backend call gives: it resolves with a result, or it rejects (throws)
  with some value, possibly a falsy one.
\<close>

datatype 'd outcome = Resolved "'d query_result" | Rejected "js_error option"

section \<open>Strings\<close>

text \<open>
  \<open>String.prototype.includes\<close>: the argument occurs as a contiguous run of the receiver.
\<close>

fun js_includes :: "string \<Rightarrow> string \<Rightarrow> bool" where
  "js_includes [] sub = (sub = [])"
| "js_includes (c # cs) sub = (if prefix sub (c # cs) then True else js_includes cs sub)"

text \<open>
  \<open>String.prototype.toLowerCase\<close> on the ASCII range: the letters \<open>A\<close> to \<open>Z\<close> move to
  \<open>a\<close> to \<open>z\<close>, every other character stays.
\<close>

definition toLowerChar :: "char \<Rightarrow> char" where
  "toLowerChar c =
     (case map_of (zip ''ABCDEFGHIJKLMNOPQRSTUVWXYZ'' ''abcdefghijklmnopqrstuvwxyz'') c of
        Some l \<Rightarrow> l
      | None \<Rightarrow> c)"

definition toLowerCase :: "string \<Rightarrow> string" where
  "toLowerCase s = map toLowerChar s"

section \<open>Error Classifier (supabase.ts)\<close>

definition MAX_RETRIES :: nat where "MAX_RETRIES = 3"
definition INITIAL_RETRY_DELAY :: nat where "INITIAL_RETRY_DELAY = 1000"
definition MAX_RETRY_DELAY :: nat where "MAX_RETRY_DELAY = 5000"

definition retryableMessages :: "string list" where
  "retryableMessages =
     [''network error'', ''timeout'', ''connection refused'', ''socket hang up'',
      ''econnrefused'', ''etimedout'', ''failed to fetch'']"

definition retryableCodes :: "string list" where
  "retryableCodes = [''PGRST301'', ''503'', ''504'', ''408'', ''429'']"

text \<open>
  \<open>isRetryableError(error)\<close>, with \<open>navigator.onLine\<close> as the first argument. The
  source returns \<open>error.code && retryableCodes.includes(error.code)\<close>, which callers
  only test for truthiness; the model returns that truth value (a missing or empty
  \<open>code\<close> is falsy, as is a missing or empty \<open>message\<close>).
\<close>

definition message_is_retryable :: "string option \<Rightarrow> bool" where
  "message_is_retryable mo =
     (case mo of None \<Rightarrow> False
      | Some m \<Rightarrow>
          if m = [] then False
          else list_ex (\<lambda>msg. js_includes (toLowerCase m) msg) retryableMessages)"

definition code_is_retryable :: "string option \<Rightarrow> bool" where
  "code_is_retryable co =
     (case co of None \<Rightarrow> False
      | Some c \<Rightarrow> if c = [] then False else List.member retryableCodes c)"

definition isRetryableError :: "bool \<Rightarrow> js_error option \<Rightarrow> bool" where
  "isRetryableError onLine err =
     (case err of None \<Rightarrow> False
      | Some e \<Rightarrow>
          if is_type_error e then True
          else if onLine then
            (if message_is_retryable (message e) then True
             else code_is_retryable (code e))
          else True)"

section \<open>Backoff Retrier (supabase.ts, createRetryProxy)\<close>

text \<open>
  \<open>Math.min(INITIAL_RETRY_DELAY * Math.pow(2, attempt), MAX_RETRY_DELAY)\<close>.
\<close>

definition retry_delay :: "nat \<Rightarrow> nat" where
  "retry_delay attempt = min (INITIAL_RETRY_DELAY * 2 ^ attempt) MAX_RETRY_DELAY"

text \<open>
  The value built after the loop: \<open>lastError?.message || 'An unknown error occurred'\<close>
  wrapped into a new \<open>Error\<close>.
\<close>

definition errorMessage :: "js_error option \<Rightarrow> string" where
  "errorMessage lastError =
     (case lastError of None \<Rightarrow> ''An unknown error occurred''
      | Some e \<Rightarrow>
          (case message e of None \<Rightarrow> ''An unknown error occurred''
           | Some m \<Rightarrow> if m = [] then ''An unknown error occurred'' else m))"

definition formattedError :: "js_error option \<Rightarrow> js_error" where
  "formattedError lastError =
     \<lparr>is_type_error = False,
      message = Some (''Database operation failed: '' @ errorMessage lastError @
                      ''. Please check your connection and try again.''),
      code = None\<rparr>"

text \<open>
  One run of the proxied function: the value it resolves with, how many times it called the
  wrapped operation, and the delays it waited, in order.
\<close>

record 'd retry_run =
  returned :: "'d query_result"
  calls :: nat
  delays :: "nat list"

text \<open>
  The \<open>try\<close> block of one iteration: either the function returns a result, or control
  passes to the \<open>catch\<close> block with a thrown value. A structured error that is classified
  retryable is thrown; any other result is returned as it is.
\<close>

datatype 'd try_result = Return "'d query_result" | Throw "js_error option"

definition attempt_try :: "bool \<Rightarrow> 'd outcome \<Rightarrow> 'd try_result" where
  "attempt_try onLine oc =
     (case oc of
        Rejected e \<Rightarrow> Throw e
      | Resolved r \<Rightarrow>
          (case error r of
             None \<Rightarrow> Return r
           | Some e \<Rightarrow> if isRetryableError onLine (Some e) then Throw (Some e) else Return r))"

text \<open>
  The \<open>while (attempt < MAX_RETRIES)\<close> loop. \<open>op n\<close> is what the \<open>n\<close>-th call of the
  wrapped operation (counting from 0) settles with, and \<open>onLine n\<close> is
  \<open>navigator.onLine\<close> at the moment that call's failure is classified. The loop state is
  the source's \<open>attempt\<close> and \<open>lastError\<close>, together with the number of calls made and the
  delays waited so far. The model covers the runs in which every awaited promise settles
  (the wait for the \<open>online\<close> event included).
\<close>

function retry_loop ::
  "(nat \<Rightarrow> 'd outcome) \<Rightarrow> (nat \<Rightarrow> bool) \<Rightarrow> nat \<Rightarrow> js_error option \<Rightarrow> nat \<Rightarrow> nat list
     \<Rightarrow> 'd retry_run" where
  "retry_loop op onLine attempt lastError n ds =
     (if attempt < MAX_RETRIES then
        (case attempt_try (onLine n) (op n) of
           Return r \<Rightarrow> \<lparr>returned = r, calls = Suc n, delays = ds\<rparr>
         | Throw e \<Rightarrow>
             if attempt < MAX_RETRIES - 1 then
               (if isRetryableError (onLine n) e then
                  retry_loop op onLine (attempt + 1) e (Suc n) (ds @ [retry_delay attempt])
                else
                  \<lparr>returned = \<lparr>data = None, error = Some (formattedError e)\<rparr>,
                   calls = Suc n, delays = ds\<rparr>)
             else
               \<lparr>returned = \<lparr>data = None, error = Some (formattedError e)\<rparr>,
                calls = Suc n, delays = ds\<rparr>)
      else
        \<lparr>returned = \<lparr>data = None, error = Some (formattedError lastError)\<rparr>,
         calls = n, delays = ds\<rparr>)"
  by pat_completeness auto
termination
  by (relation "measure (\<lambda>(op, onLine, attempt, lastError, n, ds). MAX_RETRIES - attempt)")
     (auto simp: MAX_RETRIES_def)

definition createRetryProxy :: "(nat \<Rightarrow> 'd outcome) \<Rightarrow> (nat \<Rightarrow> bool) \<Rightarrow> 'd retry_run" where
  "createRetryProxy op onLine = retry_loop op onLine 0 None 0 []"

text \<open>Awaiting the proxied call: it resolves with the run's value.\<close>

definition proxied :: "(nat \<Rightarrow> 'd outcome) \<Rightarrow> (nat \<Rightarrow> bool) \<Rightarrow> 'd outcome" where
  "proxied op onLine = Resolved (returned (createRetryProxy op onLine))"

text \<open>
  The operation fails at its \<open>n\<close>-th call with an error the classifier accepts or refuses.
\<close>

definition failure_of :: "'d outcome \<Rightarrow> js_error option" where
  "failure_of oc = (case oc of Rejected e \<Rightarrow> e | Resolved r \<Rightarrow> error r)"

definition fails_retryably :: "bool \<Rightarrow> 'd outcome \<Rightarrow> bool" where
  "fails_retryably onLine oc = isRetryableError onLine (failure_of oc)"

definition fails_terminally :: "bool \<Rightarrow> 'd outcome \<Rightarrow> bool" where
  "fails_terminally onLine oc =
     (case oc of
        Rejected e \<Rightarrow> \<not> isRetryableError onLine e
      | Resolved r \<Rightarrow>
          (case error r of None \<Rightarrow> False | Some e \<Rightarrow> \<not> isRetryableError onLine (Some e)))"

text \<open>
  The failure value the loop builds itself: \<open>{ data: null, error: formattedError }\<close>.
\<close>

definition normalized_failure :: "'d query_result \<Rightarrow> bool" where
  "normalized_failure r =
     (case data r of
        Some d \<Rightarrow> False
      | None \<Rightarrow>
          (case error r of
             None \<Rightarrow> False
           | Some e \<Rightarrow>
               (case message e of
                  None \<Rightarrow> False
                | Some m \<Rightarrow>
                    prefix ''Database operation failed: '' m \<and>
                    suffix ''. Please check your connection and try again.'' m)))"

section \<open>Resource Access Facade (db.ts)\<close>

text \<open>
  The facade's result, \<open>{ data: T | null, error: string | null }\<close>.
\<close>

record 'd db_result =
  db_data :: "'d option"
  db_error :: "string option"

text \<open>
  A computation that completes normally with a value (\<open>Inr\<close>) or throws (\<open>Inl\<close>).
\<close>

type_synonym 'a completion = "js_error option + 'a"

definition await :: "'d outcome \<Rightarrow> 'd query_result completion" where
  "await q = (case q of Rejected e \<Rightarrow> Inl e | Resolved r \<Rightarrow> Inr r)"

definition try_catch :: "'a completion \<Rightarrow> (js_error option \<Rightarrow> 'a completion) \<Rightarrow> 'a completion" where
  "try_catch body handler = (case body of Inl e \<Rightarrow> handler e | Inr v \<Rightarrow> Inr v)"

text \<open>
  \<open>handleDbError\<close> returns \<open>{ error: message, details: error }\<close>; its callers read the
  message only, which is what the model returns. The checks are case-sensitive, in the
  source's order.
\<close>

definition handleDbError :: "js_error option \<Rightarrow> string" where
  "handleDbError err =
     (case err of
        None \<Rightarrow> ''An error occurred while accessing the database.''
      | Some e \<Rightarrow>
          (case message e of
             None \<Rightarrow> ''An error occurred while accessing the database.''
           | Some m \<Rightarrow>
               if m = [] then ''An error occurred while accessing the database.''
               else if js_includes m ''dates overlap'' then
                 ''This flight overlaps with another flight for the same aircraft.''
               else if js_includes m ''not found'' then
                 ''The requested record was not found.''
               else if js_includes m ''permission denied'' then
                 ''You do not have permission to perform this action.''
               else if js_includes m ''network'' then
                 ''Unable to connect to the database. Please check your internet connection.''
               else ''An error occurred while accessing the database.''))"

definition dbQuery :: "'d outcome \<Rightarrow> 'd db_result completion" where
  "dbQuery query =
     try_catch
       (case await query of
          Inl thrown \<Rightarrow> Inl thrown
        | Inr r \<Rightarrow>
            (case error r of
               Some e \<Rightarrow> Inr \<lparr>db_data = None, db_error = Some (handleDbError (Some e))\<rparr>
             | None \<Rightarrow> Inr \<lparr>db_data = data r, db_error = None\<rparr>))
       (\<lambda>err. Inr \<lparr>db_data = None, db_error = Some (handleDbError err)\<rparr>)"

text \<open>
  The facade builds every query as a chain of method calls on \<open>supabase.from(table)\<close>.
  \<open>supabase.ts\<close> replaces \<open>client.from\<close> by a function returning
  \<open>createRetryProxy(builder)\<close>, and the proxy's \<open>get\<close> trap answers every
  function-valued property other than \<open>then\<close> by an \<open>async\<close> function. So the first call
  of a chain already gives a promise, of what the retry loop returns, and not a builder; a
  promise has the methods \<open>then\<close>, \<open>catch\<close> and \<open>finally\<close> only, and calling anything else
  on it throws a \<open>TypeError\<close>.
\<close>

datatype 'p call =
  Select | Insert 'p | Update 'p | Delete | Eq string string | Order string | Single

definition method_name :: "'p call \<Rightarrow> string" where
  "method_name m =
     (case m of
        Select \<Rightarrow> ''select'' | Insert p \<Rightarrow> ''insert'' | Update p \<Rightarrow> ''update''
      | Delete \<Rightarrow> ''delete'' | Eq c v \<Rightarrow> ''eq'' | Order c \<Rightarrow> ''order'' | Single \<Rightarrow> ''single'')"

definition not_a_function :: "string \<Rightarrow> js_error" where
  "not_a_function name =
     \<lparr>is_type_error = True, message = Some (name @ '' is not a function''), code = None\<rparr>"

text \<open>
  A value in the middle of a chain: the proxied builder of a table, or a promise with what
  it settles with.
\<close>

datatype 'd receiver = Builder string | Promise "'d outcome"

text \<open>
  What the code does not contain is a parameter: which methods the SDK's builder has
  (\<open>has_method\<close>), what awaiting the SDK's own method gives at its \<open>n\<close>-th call
  (\<open>settles\<close>), and \<open>navigator.onLine\<close> when a failure is classified.
\<close>

record ('p, 'd) client =
  has_method :: "'p call \<Rightarrow> bool"
  settles :: "string \<Rightarrow> 'p call \<Rightarrow> nat \<Rightarrow> 'd outcome"
  connectivity :: "nat \<Rightarrow> bool"

definition supabase_from :: "string \<Rightarrow> 'd receiver" where
  "supabase_from t = Builder t"

text \<open>
  One method call of a chain. On the proxied builder a property that is a function is
  called through the retry loop and gives a promise; a property that is no function cannot
  be called. On a promise no method of the builder exists.
\<close>

definition call_method :: "('p, 'd) client \<Rightarrow> 'd receiver \<Rightarrow> 'p call \<Rightarrow> 'd receiver completion" where
  "call_method c rcv m =
     (case rcv of
        Builder t \<Rightarrow>
          if has_method c m then Inr (Promise (proxied (settles c t m) (connectivity c)))
          else Inl (Some (not_a_function (method_name m)))
      | Promise p \<Rightarrow> Inl (Some (not_a_function (method_name m))))"

fun chain :: "('p, 'd) client \<Rightarrow> 'd receiver \<Rightarrow> 'p call list \<Rightarrow> 'd receiver completion" where
  "chain c rcv [] = Inr rcv"
| "chain c rcv (m # ms) =
     (case call_method c rcv m of Inl thrown \<Rightarrow> Inl thrown | Inr rcv' \<Rightarrow> chain c rcv' ms)"

text \<open>
  \<open>dbQuery(<chain>)\<close> inside an \<open>async\<close> method of the facade: the argument is evaluated
  first, outside \<open>dbQuery\<close>'s \<open>try\<close>; when that throws, \<open>dbQuery\<close> is not entered and the
  method's promise rejects. Otherwise \<open>dbQuery\<close> awaits the value: a promise gives what it
  settles with, and the proxied builder, which is no thenable, gives itself, an object
  whose \<open>data\<close> and \<open>error\<close> are undefined.
\<close>

definition settle :: "'d receiver \<Rightarrow> 'd outcome" where
  "settle q = (case q of Promise p \<Rightarrow> p | Builder t \<Rightarrow> Resolved \<lparr>data = None, error = None\<rparr>)"

definition dbQuery_of :: "'d receiver completion \<Rightarrow> 'd db_result completion" where
  "dbQuery_of argument =
     (case argument of Inl thrown \<Rightarrow> Inl thrown | Inr q \<Rightarrow> dbQuery (settle q))"

definition flights_getAll :: "('p, 'd) client \<Rightarrow> 'd db_result completion" where
  "flights_getAll c =
     dbQuery_of (chain c (supabase_from ''flights'') [Select, Order ''start_date''])"

definition flights_getById :: "('p, 'd) client \<Rightarrow> string \<Rightarrow> 'd db_result completion" where
  "flights_getById c i =
     dbQuery_of (chain c (supabase_from ''flights'') [Select, Eq ''id'' i, Single])"

definition flights_create :: "('p, 'd) client \<Rightarrow> 'p \<Rightarrow> 'd db_result completion" where
  "flights_create c flight =
     dbQuery_of (chain c (supabase_from ''flights'') [Insert flight, Select, Single])"

definition flights_update :: "('p, 'd) client \<Rightarrow> string \<Rightarrow> 'p \<Rightarrow> 'd db_result completion" where
  "flights_update c i flight =
     dbQuery_of (chain c (supabase_from ''flights'') [Update flight, Eq ''id'' i, Select, Single])"

definition flights_delete :: "('p, 'd) client \<Rightarrow> string \<Rightarrow> 'd db_result completion" where
  "flights_delete c i =
     dbQuery_of (chain c (supabase_from ''flights'') [Delete, Eq ''id'' i])"

definition companies_getAll :: "('p, 'd) client \<Rightarrow> 'd db_result completion" where
  "companies_getAll c =
     dbQuery_of (chain c (supabase_from ''companies'') [Select, Order ''name''])"

definition companies_getById :: "('p, 'd) client \<Rightarrow> string \<Rightarrow> 'd db_result completion" where
  "companies_getById c i =
     dbQuery_of (chain c (supabase_from ''companies'') [Select, Eq ''id'' i, Single])"

definition companies_create :: "('p, 'd) client \<Rightarrow> 'p \<Rightarrow> 'd db_result completion" where
  "companies_create c company =
     dbQuery_of (chain c (supabase_from ''companies'') [Insert company, Select, Single])"

definition companies_update :: "('p, 'd) client \<Rightarrow> string \<Rightarrow> 'p \<Rightarrow> 'd db_result completion" where
  "companies_update c i company =
     dbQuery_of
       (chain c (supabase_from ''companies'') [Update company, Eq ''id'' i, Select, Single])"

definition tasks_getByFlight :: "('p, 'd) client \<Rightarrow> string \<Rightarrow> 'd db_result completion" where
  "tasks_getByFlight c flightId =
     dbQuery_of
       (chain c (supabase_from ''flight_tasks'')
          [Select, Eq ''flight_id'' flightId, Order ''created_at''])"

definition tasks_create :: "('p, 'd) client \<Rightarrow> 'p \<Rightarrow> 'd db_result completion" where
  "tasks_create c task =
     dbQuery_of (chain c (supabase_from ''flight_tasks'') [Insert task, Select, Single])"

definition tasks_update :: "('p, 'd) client \<Rightarrow> string \<Rightarrow> 'p \<Rightarrow> 'd db_result completion" where
  "tasks_update c i task =
     dbQuery_of
       (chain c (supabase_from ''flight_tasks'') [Update task, Eq ''id'' i, Select, Single])"

definition tasks_delete :: "('p, 'd) client \<Rightarrow> string \<Rightarrow> 'd db_result completion" where
  "tasks_delete c i =
     dbQuery_of (chain c (supabase_from ''flight_tasks'') [Delete, Eq ''id'' i])"

text \<open>
  \<open>Company\<close> of \<open>types.ts\<close>; the fields shared with other interfaces carry a prefix.
\<close>

record Company =
  company_id :: string
  company_name :: string
  contact :: string
  phone :: string
  email :: string
  address :: string
  company_created_at :: string
  company_created_by :: string
  company_updated_at :: string

text \<open>
  \<open>companyTails.getByCompany\<close>: the company is looked up by name; only the \<open>data\<close> of that
  lookup is read, and a \<open>null\<close> company ends the call with an empty list and no error
  (\<open>getByCompany_after_lookup\<close> is the part of the function after the first \<open>await\<close>). The
  two queries have different row types, so each has its own client value.
\<close>

definition getByCompany_after_lookup ::
  "('p, 't list) client \<Rightarrow> Company db_result \<Rightarrow> 't list db_result completion" where
  "getByCompany_after_lookup c' lookup =
     (case db_data lookup of
        None \<Rightarrow> Inr \<lparr>db_data = Some [], db_error = None\<rparr>
      | Some company \<Rightarrow>
          dbQuery_of
            (chain c' (supabase_from ''company_tails'')
               [Select, Eq ''company_id'' (company_id company)]))"

definition companyTails_getByCompany ::
  "('p, Company) client \<Rightarrow> ('p, 't list) client \<Rightarrow> string \<Rightarrow> 't list db_result completion" where
  "companyTails_getByCompany c c' companyName =
     (case dbQuery_of
             (chain c (supabase_from ''companies'') [Select, Eq ''name'' companyName, Single]) of
        Inl thrown \<Rightarrow> Inl thrown
      | Inr lookup \<Rightarrow> getByCompany_after_lookup c' lookup)"

definition companyTails_create ::
  "((string \<times> string), 'd) client \<Rightarrow> string \<Rightarrow> string \<Rightarrow> 'd db_result completion" where
  "companyTails_create c companyId tailNumber =
     dbQuery_of
       (chain c (supabase_from ''company_tails'') [Insert (companyId, tailNumber), Select, Single])"

definition companyTails_delete ::
  "('p, 'd) client \<Rightarrow> string \<Rightarrow> string \<Rightarrow> 'd db_result completion" where
  "companyTails_delete c companyId tailNumber =
     dbQuery_of
       (chain c (supabase_from ''company_tails'')
          [Delete, Eq ''company_id'' companyId, Eq ''tail_number'' tailNumber])"

definition auditLogs_create :: "('p, 'd) client \<Rightarrow> 'p \<Rightarrow> 'd db_result completion" where
  "auditLogs_create c payload =
     dbQuery_of (chain c (supabase_from ''audit_logs'') [Insert payload, Select])"

text \<open>
  A call completes normally, with a result.
\<close>

definition returns_result :: "'a completion \<Rightarrow> bool" where
  "returns_result c = (case c of Inl thrown \<Rightarrow> False | Inr r \<Rightarrow> True)"

section \<open>The flights table and its validation trigger (migrations)\<close>

text \<open>
  \<open>Flight\<close> of \<open>types.ts\<close>, which is also a row of the \<open>flights\<close> table. The type of the
  two dates is a parameter: the client holds ISO strings, the table \<open>timestamptz\<close> values
  (here integers, a count of microseconds). \<open>id\<close> is written \<open>flight_id\<close> and \<open>notes\<close> \<open>flight_notes\<close>.
\<close>

record 't Flight =
  flight_id :: string
  tail_number :: string
  start_date :: 't
  end_date :: 't
  start_airport :: string
  end_airport :: string
  flight_notes :: string
  company :: string
  status :: string
  created_at :: string
  created_by :: string
  updated_at :: string

type_synonym timestamptz = int

type_synonym flights_row = "timestamptz Flight"

text \<open>
  SQL's \<open>(s1, e1) OVERLAPS (s2, e2)\<close> on non-null values, as PostgreSQL documents and
  evaluates it: in each pair the earlier value is taken as the start; a period is the
  half-open interval from its start to its end, or the single instant when both are equal.
\<close>

definition period :: "timestamptz \<times> timestamptz \<Rightarrow> timestamptz \<times> timestamptz" where
  "period p = (if snd p < fst p then (snd p, fst p) else p)"

definition sql_overlaps :: "timestamptz \<times> timestamptz \<Rightarrow> timestamptz \<times> timestamptz \<Rightarrow> bool" where
  "sql_overlaps p1 p2 =
     (let (s1, e1) = period p1; (s2, e2) = period p2
      in if s2 < s1 then s1 < e2 else if s1 < s2 then s2 < e1 else True)"

text \<open>
  The operations on the table fail with a PostgreSQL error: an exception raised by a
  trigger, a violated \<open>CHECK\<close> constraint, a duplicate primary key, or a new row that a
  row-level security policy refuses.
\<close>

datatype pg_error =
  RaisedException string
| CheckViolation string
| UniqueViolation string
| RlsViolation string

text \<open>
  \<open>validate_flight_dates()\<close> of \<open>20250122210438_dusty_shrine.sql\<close>, run
  \<open>BEFORE INSERT OR UPDATE ... FOR EACH ROW\<close>: it sees the table as it is before the row
  is written, and all of it (the read policy of \<open>flights\<close> is \<open>USING (true)\<close>).
\<close>

definition conflicts_with :: "flights_row \<Rightarrow> flights_row \<Rightarrow> bool" where
  "conflicts_with NEW r =
     (if tail_number r = tail_number NEW then
        (if flight_id r = flight_id NEW then False
         else if status r = ''active'' then
           sql_overlaps (start_date NEW, end_date NEW) (start_date r, end_date r)
         else False)
      else False)"

definition validate_flight_dates :: "flights_row \<Rightarrow> flights_row list \<Rightarrow> pg_error + flights_row" where
  "validate_flight_dates NEW flights =
     (if list_ex (conflicts_with NEW) flights then
        Inl (RaisedException
               (''Flight dates overlap with existing flight for tail number '' @ tail_number NEW))
      else Inr NEW)"

text \<open>
  The table's \<open>CHECK\<close> constraints of the same migration, tested in the order of their
  names, as PostgreSQL does.
\<close>

definition flights_checks :: "flights_row \<Rightarrow> pg_error + flights_row" where
  "flights_checks NEW =
     (if start_airport NEW = end_airport NEW then Inl (CheckViolation ''flights_airports_check'')
      else if end_date NEW < start_date NEW then Inl (CheckViolation ''flights_dates_check'')
      else if status NEW = ''active'' then Inr NEW
      else if status NEW = ''cancelled'' then Inr NEW
      else Inl (CheckViolation ''flights_status_check''))"

text \<open>
  Inserting one row: the row trigger, then the constraints, then the primary key. A
  failure leaves the table as it was.
\<close>

definition flights_insert :: "flights_row \<Rightarrow> flights_row list \<Rightarrow> pg_error + flights_row list" where
  "flights_insert NEW flights =
     (case validate_flight_dates NEW flights of
        Inl e \<Rightarrow> Inl e
      | Inr row \<Rightarrow>
          (case flights_checks row of
             Inl e \<Rightarrow> Inl e
           | Inr row' \<Rightarrow>
               if List.member (map flight_id flights) (flight_id row')
               then Inl (UniqueViolation ''flights_pkey'')
               else Inr (flights @ [row'])))"

text \<open>
  Updating the row whose \<open>id\<close> is \<open>i\<close> (\<open>.update(...).eq('id', i)\<close>); \<open>assign\<close> applies
  the assignments to the old row. With no such row nothing happens and nothing fails.
\<close>

definition flights_update_row ::
  "string \<Rightarrow> (flights_row \<Rightarrow> flights_row) \<Rightarrow> flights_row list \<Rightarrow> pg_error + flights_row list" where
  "flights_update_row i assign flights =
     (case find (\<lambda>r. flight_id r = i) flights of
        None \<Rightarrow> Inr flights
      | Some OLD \<Rightarrow>
          (case validate_flight_dates (assign OLD) flights of
             Inl e \<Rightarrow> Inl e
           | Inr row \<Rightarrow>
               (case flights_checks row of
                  Inl e \<Rightarrow> Inl e
                | Inr row' \<Rightarrow>
                    if List.member (map flight_id (filter (\<lambda>r. flight_id r \<noteq> i) flights))
                         (flight_id row')
                    then Inl (UniqueViolation ''flights_pkey'')
                    else Inr (map (\<lambda>r. if flight_id r = i then row' else r) flights))))"

definition flights_delete_row :: "string \<Rightarrow> flights_row list \<Rightarrow> flights_row list" where
  "flights_delete_row i flights = filter (\<lambda>r. flight_id r \<noteq> i) flights"

text \<open>
  A history of the table: statements applied one after the other, a failed statement
  changing nothing.
\<close>

datatype flights_statement =
  InsertRow flights_row
| UpdateRow string "flights_row \<Rightarrow> flights_row"
| DeleteRow string

fun execute :: "flights_row list \<Rightarrow> flights_statement \<Rightarrow> flights_row list" where
  "execute flights (InsertRow NEW) =
     (case flights_insert NEW flights of Inl e \<Rightarrow> flights | Inr flights' \<Rightarrow> flights')"
| "execute flights (UpdateRow i assign) =
     (case flights_update_row i assign flights of Inl e \<Rightarrow> flights | Inr flights' \<Rightarrow> flights')"
| "execute flights (DeleteRow i) = flights_delete_row i flights"

definition history :: "flights_statement list \<Rightarrow> flights_row list" where
  "history stmts = foldl execute [] stmts"

text \<open>
  The half-open windows \<open>[start, end)\<close> of two rows share an instant.
\<close>

definition windows_overlap :: "flights_row \<Rightarrow> flights_row \<Rightarrow> bool" where
  "windows_overlap a b = (max (start_date a) (start_date b) < min (end_date a) (end_date b))"

text \<open>
  Two rows of the table, at different positions, are active flights of one tail number
  with overlapping windows.
\<close>

definition overlapping_pair :: "flights_row list \<Rightarrow> nat \<Rightarrow> nat \<Rightarrow> bool" where
  "overlapping_pair flights i j =
     (i < length flights \<and> j < length flights \<and> i \<noteq> j \<and>
      status (flights ! i) = ''active'' \<and> status (flights ! j) = ''active'' \<and>
      tail_number (flights ! i) = tail_number (flights ! j) \<and>
      windows_overlap (flights ! i) (flights ! j))"

text \<open>
  The table is consistent: its \<open>id\<close>s are pairwise different, and no two active rows of
  one tail number have overlapping windows.
\<close>

definition consistent :: "flights_row list \<Rightarrow> bool" where
  "consistent flights =
     (distinct (map flight_id flights) \<and>
      (\<forall>a \<in> set flights. \<forall>b \<in> set flights.
         flight_id a \<noteq> flight_id b \<longrightarrow> tail_number a = tail_number b \<longrightarrow>
         status a = ''active'' \<longrightarrow> status b = ''active'' \<longrightarrow> \<not> windows_overlap a b))"

text \<open>
  How the backend's error reaches the client: the REST layer answers with a structured
  error whose \<open>message\<close> is the error's text and whose \<open>code\<close> is its SQLSTATE.
\<close>

definition dq :: "string \<Rightarrow> string" where
  "dq s = CHR 0x22 # s @ [CHR 0x22]"

definition pg_message :: "pg_error \<Rightarrow> string" where
  "pg_message e =
     (case e of
        RaisedException m \<Rightarrow> m
      | CheckViolation c \<Rightarrow>
          ''new row for relation '' @ dq ''flights'' @ '' violates check constraint '' @ dq c
      | UniqueViolation c \<Rightarrow> ''duplicate key value violates unique constraint '' @ dq c
      | RlsViolation t \<Rightarrow> ''new row violates row-level security policy for table '' @ dq t)"

definition pg_sqlstate :: "pg_error \<Rightarrow> string" where
  "pg_sqlstate e =
     (case e of RaisedException m \<Rightarrow> ''P0001'' | CheckViolation c \<Rightarrow> ''23514''
      | UniqueViolation c \<Rightarrow> ''23505'' | RlsViolation t \<Rightarrow> ''42501'')"

definition structured_error :: "pg_error \<Rightarrow> js_error" where
  "structured_error e =
     \<lparr>is_type_error = False, message = Some (pg_message e), code = Some (pg_sqlstate e)\<rparr>"

text \<open>
  What one call of \<open>from('flights').insert(row).select().single()\<close> settles with against
  a given table.
\<close>

definition insert_response :: "flights_row \<Rightarrow> flights_row list \<Rightarrow> flights_row outcome" where
  "insert_response NEW flights =
     (case flights_insert NEW flights of
        Inl e \<Rightarrow> Resolved \<lparr>data = None, error = Some (structured_error e)\<rparr>
      | Inr flights' \<Rightarrow> Resolved \<lparr>data = Some NEW, error = None\<rparr>)"

section \<open>Lock cleanup (migrations)\<close>

text \<open>
  A row of \<open>flight_locks\<close>; \<open>locked_at\<close> has a default but no \<open>NOT NULL\<close>, so it may be
  \<open>NULL\<close> (\<open>None\<close>).
\<close>

record FlightLock =
  lock_flight_id :: string
  lock_user_id :: string
  user_email :: string
  locked_at :: "timestamptz option"

text \<open>
  The role a statement runs as: a signed-in client (\<open>authenticated\<close>, with its
  \<open>auth.uid()\<close>), or a role that row-level security does not apply to (the table's owner,
  the service role). \<open>cleanup_old_locks()\<close> and its trigger function are not
  \<open>SECURITY DEFINER\<close>, so they run as the role whose statement called them or fired the
  trigger.
\<close>

datatype db_role = Authenticated string | BypassRLS

text \<open>
  Row-level security of \<open>flight_locks\<close> (\<open>20250122195423_dark_credit.sql\<close>): the
  policies "Users can read all locks" (\<open>FOR SELECT USING (true)\<close>) and "Users can manage
  their own locks" (\<open>FOR ALL USING (auth.uid() = user_id)\<close>). A \<open>DELETE\<close> only sees the
  rows that pass both.
\<close>

definition locks_deletable :: "db_role \<Rightarrow> FlightLock \<Rightarrow> bool" where
  "locks_deletable role l =
     (case role of BypassRLS \<Rightarrow> True | Authenticated uid \<Rightarrow> uid = lock_user_id l)"

definition interval_15_minutes :: int where
  "interval_15_minutes = 15 * 60 * 1000000"

text \<open>
  \<open>locked_at < now() - interval '15 minutes'\<close>; a comparison with \<open>NULL\<close> is not true.
\<close>

definition is_old :: "timestamptz \<Rightarrow> FlightLock \<Rightarrow> bool" where
  "is_old now l =
     (case locked_at l of None \<Rightarrow> False | Some t \<Rightarrow> t < now - interval_15_minutes)"

text \<open>
  \<open>cleanup_old_locks()\<close> of \<open>20250122201856_lucky_wood.sql\<close>:
  \<open>DELETE FROM flight_locks WHERE locked_at < now() - interval '15 minutes'\<close>, run by
  \<open>role\<close> at time \<open>now\<close>. The rows that stay are returned.
\<close>

definition cleanup_old_locks :: "db_role \<Rightarrow> timestamptz \<Rightarrow> FlightLock list \<Rightarrow> FlightLock list" where
  "cleanup_old_locks role now locks =
     filter (\<lambda>l. if locks_deletable role l then (if is_old now l then False else True) else True)
       locks"

text \<open>
  A signed-in client inserts a lock row: the policy's \<open>WITH CHECK (auth.uid() = user_id)\<close>,
  then the primary key on \<open>flight_id\<close>, then \<open>cleanup_locks_trigger\<close>
  (\<open>AFTER INSERT OR UPDATE ON flight_locks\<close>), which runs a cleanup pass as that client.
\<close>

definition insert_lock ::
  "string \<Rightarrow> timestamptz \<Rightarrow> FlightLock \<Rightarrow> FlightLock list \<Rightarrow> pg_error + FlightLock list" where
  "insert_lock uid now l locks =
     (if lock_user_id l = uid then
        (if List.member (map lock_flight_id locks) (lock_flight_id l)
         then Inl (UniqueViolation ''flight_locks_pkey'')
         else Inr (cleanup_old_locks (Authenticated uid) now (locks @ [l])))
      else Inl (RlsViolation ''flight_locks''))"

section \<open>Audit Recorder (FlightModal.tsx, onSubmit)\<close>

text \<open>
  The values of the flight form (\<open>useForm\<close>'s \<open>defaultValues\<close>), and \<open>flightData\<close>, which is
  \<open>{ ...data, created_by: user.id, status: flight?.status || 'active' }\<close>.
\<close>

record flight_form =
  form_company :: string
  form_tail_number :: string
  form_start_date :: string
  form_end_date :: string
  form_start_airport :: string
  form_end_airport :: string
  form_notes :: string

record flight_data = flight_form +
  data_created_by :: string
  data_status :: string

record User =
  user_id :: string
  user_mail :: string

text \<open>
  The object inserted into \<open>audit_logs\<close>. Its \<open>changes\<close> are
  \<open>{ previous: flight, new: flightData }\<close> for an update and \<open>{ new: newFlight }\<close> for a
  creation.
\<close>

datatype changes =
  UpdateChanges (previous: "string Flight") (new: flight_data)
| CreateChanges "string Flight"

record audit_payload =
  audit_flight_id :: string
  audit_user_id :: string
  action :: string
  changes :: changes

datatype ui_event = Alert string | ConsoleError string | OnSuccess | OnClose

text \<open>
  \<open>endDate < startDate\<close> on two \<open>Date\<close> objects; an invalid date (\<open>None\<close>) compares false.
\<close>

definition date_before :: "int option \<Rightarrow> int option \<Rightarrow> bool" where
  "date_before a b =
     (case a of None \<Rightarrow> False | Some x \<Rightarrow> (case b of None \<Rightarrow> False | Some y \<Rightarrow> x < y))"

definition make_flightData :: "string Flight option \<Rightarrow> flight_form \<Rightarrow> User \<Rightarrow> flight_data" where
  "make_flightData flight form_values user =
     flight_form.extend form_values
       (flight_data.fields (user_id user)
          (case flight of
             None \<Rightarrow> ''active''
           | Some f \<Rightarrow> if status f = [] then ''active'' else status f))"

definition catch_block :: "ui_event list" where
  "catch_block = [ConsoleError ''Error saving flight:'', Alert ''Error saving flight. Please try again.'']"

text \<open>
  \<open>await <chain>\<close> inside \<open>onSubmit\<close>'s \<open>try\<close>: an exception thrown while the chain is
  built and a rejected promise both pass control to the \<open>catch\<close> block.
\<close>

definition awaited :: "'d receiver completion \<Rightarrow> 'd query_result completion" where
  "awaited expression =
     (case expression of Inl thrown \<Rightarrow> Inl thrown | Inr q \<Rightarrow> await (settle q))"

text \<open>
  \<open>await supabase.from('audit_logs').insert(payload)\<close>, a chain of one call: what the
  \<open>await\<close> gives, and the rows sent to the backend, one for each time the retry loop called
  the SDK's \<open>insert\<close>.
\<close>

definition insert_audit_log ::
  "(audit_payload, unit) client \<Rightarrow> audit_payload
     \<Rightarrow> unit query_result completion \<times> audit_payload list" where
  "insert_audit_log ca payload =
     (awaited (chain ca (supabase_from ''audit_logs'') [Insert payload]),
      if has_method ca (Insert payload) then
        replicate
          (calls (createRetryProxy (settles ca ''audit_logs'' (Insert payload)) (connectivity ca)))
          payload
      else [])"

text \<open>
  \<open>onSubmit(data)\<close> of the flight form, on the client of \<open>supabase.ts\<close>: \<open>cf\<close> for the
  queries on \<open>flights\<close> and \<open>ca\<close> for those on \<open>audit_logs\<close>. \<open>flight\<close> is the
  component's property (the flight being edited, or \<open>null\<close>), \<open>parseDate\<close> stands for
  \<open>new Date(...)\<close> and \<open>getUser\<close> for \<open>(await supabase.auth.getUser()).data.user\<close>, which
  does not go through the proxy. It returns what the user interface is told and the audit
  rows sent to the backend. The result of the audit insert is awaited and not read.
\<close>

definition onSubmit ::
  "(string \<Rightarrow> int option) \<Rightarrow> User option completion \<Rightarrow> (flight_data, string Flight) client
     \<Rightarrow> (audit_payload, unit) client \<Rightarrow> string Flight option \<Rightarrow> flight_form
     \<Rightarrow> ui_event list \<times> audit_payload list" where
  "onSubmit parseDate getUser cf ca flight form_values =
     (if date_before (parseDate (form_end_date form_values))
           (parseDate (form_start_date form_values))
      then ([Alert ''End date cannot be before start date''], [])
      else
        (case getUser of
           Inl thrown \<Rightarrow> (catch_block, [])
         | Inr None \<Rightarrow> ([ConsoleError ''No user found''], [])
         | Inr (Some user) \<Rightarrow>
             (let flightData = make_flightData flight form_values user in
              case flight of
                Some f \<Rightarrow>
                  (case awaited
                          (chain cf (supabase_from ''flights'')
                             [Update flightData, Eq ''id'' (flight_id f)]) of
                     Inl thrown \<Rightarrow> (catch_block, [])
                   | Inr upd \<Rightarrow>
                       (case error upd of
                          Some updateError \<Rightarrow> (catch_block, [])
                        | None \<Rightarrow>
                            (case insert_audit_log ca
                                    \<lparr>audit_flight_id = flight_id f, audit_user_id = user_id user,
                                     action = ''update'',
                                     changes = UpdateChanges f flightData\<rparr> of
                               (Inl thrown, sent) \<Rightarrow> (catch_block, sent)
                             | (Inr ins, sent) \<Rightarrow> ([OnSuccess, OnClose], sent))))
              | None \<Rightarrow>
                  (case awaited
                          (chain cf (supabase_from ''flights'')
                             [Insert flightData, Select, Single]) of
                     Inl thrown \<Rightarrow> (catch_block, [])
                   | Inr created \<Rightarrow>
                       (case error created of
                          Some insertError \<Rightarrow> (catch_block, [])
                        | None \<Rightarrow>
                            (case data created of
                               None \<Rightarrow> ([OnSuccess, OnClose], [])
                             | Some newFlight \<Rightarrow>
                                 (case insert_audit_log ca
                                         \<lparr>audit_flight_id = flight_id newFlight,
                                          audit_user_id = user_id user,
                                          action = ''create'',
                                          changes = CreateChanges newFlight\<rparr> of
                                    (Inl thrown, sent) \<Rightarrow> (catch_block, sent)
                                  | (Inr ins, sent) \<Rightarrow> ([OnSuccess, OnClose], sent))))))))"

section \<open>Scenarios\<close>

text \<open>
  Concrete operations and connectivity used to run the definitions: an operation whose
  every call fails to fetch, one that the backend answers with a refusal, and a device
  that stays online.
\<close>

definition failed_to_fetch :: js_error where
  "failed_to_fetch = \<lparr>is_type_error = True, message = Some ''Failed to fetch'', code = None\<rparr>"

definition always_online :: "nat \<Rightarrow> bool" where
  "always_online n = True"

definition always_failing :: "nat \<Rightarrow> unit outcome" where
  "always_failing n = Rejected (Some failed_to_fetch)"

definition permission_denied :: js_error where
  "permission_denied =
     \<lparr>is_type_error = False, message = Some ''permission denied for table flights'',
      code = Some ''42501''\<rparr>"

definition always_refused :: "nat \<Rightarrow> unit outcome" where
  "always_refused n = Resolved \<lparr>data = None, error = Some permission_denied\<rparr>"

definition host_not_found :: js_error where
  "host_not_found =
     \<lparr>is_type_error = False, message = Some ''host not found: network error'', code = None\<rparr>"

text \<open>
  A small world: a user, a flight as the client holds it, the values of its edit form, and
  the two dates the form shows.
\<close>

definition alice :: User where
  "alice = \<lparr>user_id = ''alice'', user_mail = ''alice@example.com''\<rparr>"

definition flight_N123 :: "string Flight" where
  "flight_N123 =
     \<lparr>flight_id = ''f1'', tail_number = ''N123'', start_date = ''2025-01-22T10:00'',
      end_date = ''2025-01-22T12:00'', start_airport = ''JFK'', end_airport = ''BOS'',
      flight_notes = [], company = ''Acme'', status = ''active'',
      created_at = ''2025-01-20T09:00'', created_by = ''alice'',
      updated_at = ''2025-01-20T09:00''\<rparr>"

definition edit_form :: flight_form where
  "edit_form =
     \<lparr>form_company = ''Acme'', form_tail_number = ''N123'',
      form_start_date = ''2025-01-22T10:00'', form_end_date = ''2025-01-22T13:00'',
      form_start_airport = ''JFK'', form_end_airport = ''BOS'', form_notes = ''delayed''\<rparr>"

definition parse_dates :: "string \<Rightarrow> int option" where
  "parse_dates d = map_of [(''2025-01-22T10:00'', 600), (''2025-01-22T13:00'', 780)] d"

text \<open>
  Two rows of the \<open>flights\<close> table for one aircraft, the second starting while the first
  is still under way.
\<close>

definition row_first :: flights_row where
  "row_first =
     \<lparr>flight_id = ''f1'', tail_number = ''N123'', start_date = 600, end_date = 720,
      start_airport = ''JFK'', end_airport = ''BOS'', flight_notes = [], company = ''Acme'',
      status = ''active'', created_at = ''2025-01-20T09:00'', created_by = ''alice'',
      updated_at = ''2025-01-20T09:00''\<rparr>"

definition row_second :: flights_row where
  "row_second =
     \<lparr>flight_id = ''f2'', tail_number = ''N123'', start_date = 660, end_date = 780,
      start_airport = ''BOS'', end_airport = ''JFK'', flight_notes = [], company = ''Acme'',
      status = ''active'', created_at = ''2025-01-21T09:00'', created_by = ''alice'',
      updated_at = ''2025-01-21T09:00''\<rparr>"

text \<open>
  Two lock rows at the time \<open>now_1h\<close>, one hour after the first was taken: Bob's lock is
  an hour old, Alice's is new.
\<close>

definition now_1h :: timestamptz where
  "now_1h = 3600000000"

definition lock_of_bob :: FlightLock where
  "lock_of_bob =
     \<lparr>lock_flight_id = ''f1'', lock_user_id = ''bob'', user_email = ''bob@example.com'',
      locked_at = Some 0\<rparr>"

definition lock_of_alice :: FlightLock where
  "lock_of_alice =
     \<lparr>lock_flight_id = ''f2'', lock_user_id = ''alice'', user_email = ''alice@example.com'',
      locked_at = Some 3600000000\<rparr>"

text \<open>
  A client of the SDK as it is (its builder has \<open>select\<close>, \<open>insert\<close>, \<open>update\<close> and
  \<open>delete\<close>) on a network where every request fails to fetch.
\<close>

definition builder_has :: "'p call \<Rightarrow> bool" where
  "builder_has m =
     (case m of
        Select \<Rightarrow> True | Insert p \<Rightarrow> True | Update p \<Rightarrow> True | Delete \<Rightarrow> True
      | Eq c v \<Rightarrow> False | Order c \<Rightarrow> False | Single \<Rightarrow> False)"

definition unreachable_client :: "('p, 'd) client" where
  "unreachable_client =
     \<lparr>has_method = builder_has,
      settles = (\<lambda>t m n. Rejected (Some failed_to_fetch)),
      connectivity = always_online\<rparr>"

text \<open>
  A client of the SDK as it is whose backend accepts every request and returns no row.
\<close>

definition accepting_client :: "('p, 'd) client" where
  "accepting_client =
     \<lparr>has_method = builder_has,
      settles = (\<lambda>t m n. Resolved \<lparr>data = None, error = None\<rparr>),
      connectivity = always_online\<rparr>"

text \<open>
  A client whose inserts into \<open>flights\<close> reach a table that holds the first row, and
  whose other requests fail to fetch.
\<close>

definition client_of_first :: "(flights_row, flights_row) client" where
  "client_of_first =
     \<lparr>has_method = builder_has,
      settles =
        (\<lambda>t m n. case m of
                    Insert NEW \<Rightarrow> insert_response NEW [row_first]
                  | Select \<Rightarrow> Rejected (Some failed_to_fetch)
                  | Update p \<Rightarrow> Rejected (Some failed_to_fetch)
                  | Delete \<Rightarrow> Rejected (Some failed_to_fetch)
                  | Eq c v \<Rightarrow> Rejected (Some failed_to_fetch)
                  | Order c \<Rightarrow> Rejected (Some failed_to_fetch)
                  | Single \<Rightarrow> Rejected (Some failed_to_fetch)),
      connectivity = always_online\<rparr>"

section \<open>Facts about strings\<close>

lemma js_includes_iff: "js_includes s sub \<longleftrightarrow> (\<exists>p q. s = p @ sub @ q)"
proof (induction s)
  case Nil
  show ?case by auto
next
  case (Cons c cs)
  show ?case
  proof
    assume "js_includes (c # cs) sub"
    then consider "prefix sub (c # cs)" | "js_includes cs sub"
      by (auto split: if_splits)
    then show "\<exists>p q. c # cs = p @ sub @ q"
    proof cases
      case 1
      then obtain q where "c # cs = sub @ q" by (auto simp: prefix_def)
      then have "c # cs = [] @ sub @ q" by simp
      then show ?thesis by blast
    next
      case 2
      then obtain p q where "cs = p @ sub @ q" using Cons.IH by blast
      then have "c # cs = (c # p) @ sub @ q" by simp
      then show ?thesis by blast
    qed
  next
    assume "\<exists>p q. c # cs = p @ sub @ q"
    then obtain p q where pq: "c # cs = p @ sub @ q" by blast
    show "js_includes (c # cs) sub"
    proof (cases p)
      case Nil
      then have "prefix sub (c # cs)" using pq by (simp add: prefix_def)
      then show ?thesis by simp
    next
      case (Cons a p')
      then have "cs = p' @ sub @ q" using pq by simp
      then have "js_includes cs sub" using Cons.IH by blast
      then show ?thesis by simp
    qed
  qed
qed

lemma js_includes_toLowerCase:
  assumes "js_includes m sub" and "toLowerCase sub = sub"
  shows "js_includes (toLowerCase m) sub"
proof -
  from assms(1) obtain p q where "m = p @ sub @ q"
    unfolding js_includes_iff by blast
  then have "toLowerCase m = toLowerCase p @ toLowerCase sub @ toLowerCase q"
    by (simp add: toLowerCase_def)
  with assms(2) show ?thesis
    unfolding js_includes_iff by metis
qed

lemma js_includes_append_mid: "js_includes m sub \<Longrightarrow> js_includes (a @ m @ b) sub"
proof -
  assume "js_includes m sub"
  then obtain p q where "m = p @ sub @ q" unfolding js_includes_iff by blast
  then have "a @ m @ b = (a @ p) @ sub @ (q @ b)" by simp
  then show ?thesis unfolding js_includes_iff by blast
qed

lemma toLowerCase_fixed:
  "toLowerCase ''network error'' = ''network error''"
  "toLowerCase ''timeout'' = ''timeout''"
  "toLowerCase ''failed to fetch'' = ''failed to fetch''"
  by (simp_all add: toLowerCase_def toLowerChar_def)

section \<open>The Error Classifier\<close>

lemma isRetryableError_Some:
  "isRetryableError onLine (Some e) \<longleftrightarrow>
     is_type_error e \<or> \<not> onLine \<or> message_is_retryable (message e) \<or> code_is_retryable (code e)"
  by (auto simp: isRetryableError_def)

lemma message_is_retryable_includes:
  assumes "js_includes m sub" and "toLowerCase sub = sub" and "sub \<in> set retryableMessages"
  shows "message_is_retryable (Some m)"
proof -
  have low: "js_includes (toLowerCase m) sub"
    using assms(1,2) by (rule js_includes_toLowerCase)
  have "sub \<noteq> []"
    using assms(3) by (auto simp: retryableMessages_def)
  then have "m \<noteq> []"
    using assms(1) by (cases m) auto
  then show ?thesis
    using low assms(3) by (auto simp: message_is_retryable_def list_ex_iff)
qed

text \<open>
  C9. When the device is offline, or the error is a \<open>TypeError\<close>, the classifier answers
  "retryable" for every non-null error, whatever its message and code.
\<close>

theorem offline_or_TypeError_is_retryable:
  assumes "\<not> onLine \<or> is_type_error e"
  shows "isRetryableError onLine (Some e) = True"
  using assms by (auto simp: isRetryableError_def)

theorem offline_or_TypeError_is_retryable_witness:
  "message permission_denied = Some ''permission denied for table flights'' \<and>
   isRetryableError False (Some permission_denied) = True"
  using offline_or_TypeError_is_retryable [of False permission_denied]
  by (simp add: permission_denied_def)

text \<open>
  C2, as amended. An error whose message contains "timeout", "network error" or "failed
  to fetch" is retryable. An error whose message contains "permission denied" or "not
  found" is not retryable exactly when the device is online, the error is no \<open>TypeError\<close>,
  its lower-cased message contains none of the retryable substrings and its code is none
  of the retryable codes.
\<close>

theorem classifier_on_messages:
  assumes "message e = Some m"
  shows "(js_includes m ''timeout'' \<or> js_includes m ''network error'' \<or>
          js_includes m ''failed to fetch'' \<longrightarrow> isRetryableError onLine (Some e) = True) \<and>
         (js_includes m ''permission denied'' \<or> js_includes m ''not found'' \<longrightarrow>
            (isRetryableError onLine (Some e) = False \<longleftrightarrow>
               onLine \<and> \<not> is_type_error e \<and> \<not> message_is_retryable (Some m) \<and>
               \<not> code_is_retryable (code e)))"
proof -
  have "message_is_retryable (Some m)" if "js_includes m ''timeout''"
    using that by (rule message_is_retryable_includes)
      (simp_all add: toLowerCase_fixed retryableMessages_def)
  moreover have "message_is_retryable (Some m)" if "js_includes m ''network error''"
    using that by (rule message_is_retryable_includes)
      (simp_all add: toLowerCase_fixed retryableMessages_def)
  moreover have "message_is_retryable (Some m)" if "js_includes m ''failed to fetch''"
    using that by (rule message_is_retryable_includes)
      (simp_all add: toLowerCase_fixed retryableMessages_def)
  ultimately show ?thesis
    using assms by (auto simp: isRetryableError_Some)
qed

theorem classifier_on_messages_witness:
  "message permission_denied = Some ''permission denied for table flights'' \<and>
   js_includes ''permission denied for table flights'' ''permission denied'' \<and>
   isRetryableError True (Some permission_denied) = False \<and>
   message host_not_found = Some ''host not found: network error'' \<and>
   js_includes ''host not found: network error'' ''network error'' \<and>
   isRetryableError True (Some host_not_found) = True"
proof -
  have a: "message permission_denied = Some ''permission denied for table flights''"
    and b: "message host_not_found = Some ''host not found: network error''"
    by (simp_all add: permission_denied_def host_not_found_def)
  have c: "\<not> message_is_retryable (Some ''permission denied for table flights'')"
    by (simp add: message_is_retryable_def retryableMessages_def toLowerCase_def toLowerChar_def)
  have d: "\<not> code_is_retryable (code permission_denied)" "\<not> is_type_error permission_denied"
    by (simp_all add: permission_denied_def code_is_retryable_def retryableCodes_def)
  show ?thesis
    using classifier_on_messages [OF a, of True] classifier_on_messages [OF b, of True]
    by (simp add: a b c d)
qed

theorem classifier_not_found_counterexample:
  "js_includes ''host not found: network error'' ''not found'' \<and>
   message host_not_found = Some ''host not found: network error'' \<and>
   isRetryableError True (Some host_not_found) = True"
  by (simp add: host_not_found_def isRetryableError_def message_is_retryable_def
      retryableMessages_def toLowerCase_def toLowerChar_def)

section \<open>The Backoff Retrier\<close>

declare retry_loop.simps [simp del]

lemma attempt_try_retryable:
  "fails_retryably b oc \<Longrightarrow> attempt_try b oc = Throw (failure_of oc)"
  by (cases oc)
     (auto simp: fails_retryably_def failure_of_def attempt_try_def isRetryableError_def
           split: option.splits)

lemma attempt_try_terminal:
  "fails_terminally b oc \<Longrightarrow>
     (\<exists>r. oc = Resolved r \<and> attempt_try b oc = Return r) \<or>
     (\<exists>e. oc = Rejected e \<and> attempt_try b oc = Throw e \<and> \<not> isRetryableError b e)"
  by (cases oc) (auto simp: fails_terminally_def attempt_try_def split: option.splits)

lemma retry_delay_values: "retry_delay 0 = 1000" "retry_delay (Suc 0) = 2000"
  by (simp_all add: retry_delay_def INITIAL_RETRY_DELAY_def MAX_RETRY_DELAY_def)

lemma retry_loop_exhausted:
  assumes "fails_retryably (onLine 0) (op 0)"
    and "fails_retryably (onLine (Suc 0)) (op (Suc 0))"
    and "fails_retryably (onLine (Suc (Suc 0))) (op (Suc (Suc 0)))"
  shows "createRetryProxy op onLine =
     \<lparr>returned = \<lparr>data = None, error = Some (formattedError (failure_of (op (Suc (Suc 0)))))\<rparr>,
      calls = 3, delays = [1000, 2000]\<rparr>"
proof -
  have t: "attempt_try (onLine 0) (op 0) = Throw (failure_of (op 0))"
    "attempt_try (onLine (Suc 0)) (op (Suc 0)) = Throw (failure_of (op (Suc 0)))"
    "attempt_try (onLine (Suc (Suc 0))) (op (Suc (Suc 0))) = Throw (failure_of (op (Suc (Suc 0))))"
    using assms by (simp_all add: attempt_try_retryable)
  have r: "isRetryableError (onLine 0) (failure_of (op 0))"
    "isRetryableError (onLine (Suc 0)) (failure_of (op (Suc 0)))"
    using assms by (simp_all add: fails_retryably_def)
  show ?thesis
    unfolding createRetryProxy_def
    apply (subst retry_loop.simps)
    apply (simp add: MAX_RETRIES_def t r retry_delay_values)
    apply (subst retry_loop.simps)
    apply (simp add: MAX_RETRIES_def t r retry_delay_values)
    apply (subst retry_loop.simps)
    apply (simp add: MAX_RETRIES_def t r retry_delay_values)
    done
qed

lemma always_failing_retryable: "fails_retryably (always_online n) (always_failing n)"
  by (simp add: fails_retryably_def failure_of_def always_failing_def isRetryableError_def
      failed_to_fetch_def)

text \<open>
  C1, as amended. When every call of the wrapped operation fails with a retryable error,
  the retrier calls it exactly 3 times, the attempt ceiling; it waits between attempts
  only, so twice; each wait is \<open>min (1000 * 2 ^ attempt) 5000\<close> milliseconds, no shorter
  than the one before; the delays are 1000, 2000.
\<close>

theorem retrier_backoff_schedule:
  assumes "\<forall>n. fails_retryably (onLine n) (op n)"
  shows "calls (createRetryProxy op onLine) = 3 \<and>
         calls (createRetryProxy op onLine) \<le> MAX_RETRIES \<and>
         delays (createRetryProxy op onLine) = [1000, 2000] \<and>
         sorted (delays (createRetryProxy op onLine)) \<and>
         (\<forall>i < length (delays (createRetryProxy op onLine)).
            delays (createRetryProxy op onLine) ! i =
              min (INITIAL_RETRY_DELAY * 2 ^ i) MAX_RETRY_DELAY)"
proof -
  have run: "createRetryProxy op onLine =
     \<lparr>returned = \<lparr>data = None, error = Some (formattedError (failure_of (op (Suc (Suc 0)))))\<rparr>,
      calls = 3, delays = [1000, 2000]\<rparr>"
    using assms by (intro retry_loop_exhausted) simp_all
  have "[1000, 2000 :: nat] ! i = min (INITIAL_RETRY_DELAY * 2 ^ i) MAX_RETRY_DELAY"
    if "i < 2" for i
  proof -
    from that consider "i = 0" | "i = 1" by linarith
    then show ?thesis
      by cases (simp_all add: INITIAL_RETRY_DELAY_def MAX_RETRY_DELAY_def)
  qed
  then show ?thesis
    by (simp add: run MAX_RETRIES_def)
qed

theorem retrier_backoff_schedule_witness:
  "(\<forall>n. fails_retryably (always_online n) (always_failing n)) \<and>
   calls (createRetryProxy always_failing always_online) = 3 \<and>
   delays (createRetryProxy always_failing always_online) = [1000, 2000]"
  using retrier_backoff_schedule [of always_online always_failing]
  by (simp add: always_failing_retryable)

theorem retrier_delays_counterexample:
  "fails_retryably (always_online 0) (always_failing 0) \<and>
   fails_retryably (always_online 1) (always_failing 1) \<and>
   fails_retryably (always_online 2) (always_failing 2) \<and>
   delays (createRetryProxy always_failing always_online) = [1000, 2000] \<and>
   delays (createRetryProxy always_failing always_online) \<noteq> [1000, 2000, 4000] \<and>
   delays (createRetryProxy always_failing always_online) \<noteq> [1000, 2000, 5000]"
  by (simp add: always_failing_retryable retry_loop_exhausted)

lemma retry_loop_last:
  "retry_loop op onLine 2 lastError n ds =
     (case attempt_try (onLine n) (op n) of
        Return r \<Rightarrow> \<lparr>returned = r, calls = Suc n, delays = ds\<rparr>
      | Throw e \<Rightarrow>
          \<lparr>returned = \<lparr>data = None, error = Some (formattedError e)\<rparr>,
           calls = Suc n, delays = ds\<rparr>)"
  by (subst retry_loop.simps) (simp add: MAX_RETRIES_def split: try_result.split)

lemma retry_loop_second:
  "retry_loop op onLine (Suc 0) lastError n ds =
     (case attempt_try (onLine n) (op n) of
        Return r \<Rightarrow> \<lparr>returned = r, calls = Suc n, delays = ds\<rparr>
      | Throw e \<Rightarrow>
          if isRetryableError (onLine n) e then
            retry_loop op onLine 2 e (Suc n) (ds @ [2000])
          else
            \<lparr>returned = \<lparr>data = None, error = Some (formattedError e)\<rparr>,
             calls = Suc n, delays = ds\<rparr>)"
  by (subst retry_loop.simps)
     (simp add: MAX_RETRIES_def retry_delay_values numeral_2_eq_2 split: try_result.split)

lemma retry_loop_first:
  "retry_loop op onLine 0 lastError n ds =
     (case attempt_try (onLine n) (op n) of
        Return r \<Rightarrow> \<lparr>returned = r, calls = Suc n, delays = ds\<rparr>
      | Throw e \<Rightarrow>
          if isRetryableError (onLine n) e then
            retry_loop op onLine (Suc 0) e (Suc n) (ds @ [1000])
          else
            \<lparr>returned = \<lparr>data = None, error = Some (formattedError e)\<rparr>,
             calls = Suc n, delays = ds\<rparr>)"
  by (subst retry_loop.simps)
     (simp add: MAX_RETRIES_def retry_delay_values numeral_2_eq_2 split: try_result.split)

lemma retry_loop_unrolled:
  "createRetryProxy op onLine =
     (case attempt_try (onLine 0) (op 0) of
        Return r \<Rightarrow> \<lparr>returned = r, calls = 1, delays = []\<rparr>
      | Throw e0 \<Rightarrow>
          if isRetryableError (onLine 0) e0 then
            (case attempt_try (onLine (Suc 0)) (op (Suc 0)) of
               Return r \<Rightarrow> \<lparr>returned = r, calls = 2, delays = [1000]\<rparr>
             | Throw e1 \<Rightarrow>
                 if isRetryableError (onLine (Suc 0)) e1 then
                   (case attempt_try (onLine 2) (op 2) of
                      Return r \<Rightarrow> \<lparr>returned = r, calls = 3, delays = [1000, 2000]\<rparr>
                    | Throw e2 \<Rightarrow>
                        \<lparr>returned = \<lparr>data = None, error = Some (formattedError e2)\<rparr>,
                         calls = 3, delays = [1000, 2000]\<rparr>)
                 else \<lparr>returned = \<lparr>data = None, error = Some (formattedError e1)\<rparr>,
                       calls = 2, delays = [1000]\<rparr>)
          else \<lparr>returned = \<lparr>data = None, error = Some (formattedError e0)\<rparr>,
                calls = 1, delays = []\<rparr>)"
proof -
  have two: "Suc (Suc 0) = 2" and three: "Suc 2 = 3"
    by simp_all
  show ?thesis
    unfolding createRetryProxy_def retry_loop_first retry_loop_second retry_loop_last two three
    by (simp split: try_result.split)
qed

lemma normalized_failure_formatted:
  "normalized_failure \<lparr>data = None, error = Some (formattedError e)\<rparr>"
  by (simp add: normalized_failure_def formattedError_def suffix_def)

lemma attempt_try_cases:
  "attempt_try b oc =
     (case oc of
        Rejected e \<Rightarrow> Throw e
      | Resolved r \<Rightarrow> if fails_retryably b (Resolved r) then Throw (error r) else Return r)"
  by (auto simp: attempt_try_def fails_retryably_def failure_of_def isRetryableError_def
      split: outcome.splits option.splits)

lemma always_refused_terminal: "fails_terminally (always_online n) (always_refused n)"
  by (simp add: fails_terminally_def always_refused_def always_online_def permission_denied_def
      isRetryableError_def message_is_retryable_def code_is_retryable_def retryableMessages_def
      retryableCodes_def toLowerCase_def toLowerChar_def)

text \<open>
  C3. When the first call of the wrapped operation fails with an error the classifier
  refuses (thrown, or returned as a structured error), the retrier makes exactly one call
  and waits for no retry.
\<close>

theorem terminal_error_one_attempt:
  assumes "fails_terminally (onLine 0) (op 0)"
  shows "calls (createRetryProxy op onLine) = 1 \<and> delays (createRetryProxy op onLine) = []"
  using attempt_try_terminal [OF assms]
  by (auto simp: retry_loop_unrolled)

theorem terminal_error_one_attempt_witness:
  "fails_terminally (always_online 0) (always_refused 0) \<and>
   calls (createRetryProxy always_refused always_online) = 1 \<and>
   delays (createRetryProxy always_refused always_online) = []"
  using terminal_error_one_attempt [of always_online always_refused]
  by (simp add: always_refused_terminal)

text \<open>
  C7, as amended. The retrier never raises: every run ends, after one to three calls, with
  a returned value. When the last call threw (a refused error, or a retryable one on the
  third attempt), or resolved on the third attempt with a structured error that is still
  retryable, the value is the failure the retrier builds,
  \<open>{ data: null, error: Error("Database operation failed: <message>. Please check your
  connection and try again.") }\<close>. When the last call resolved with a structured error
  that is not retryable (or with no error), the value is that call's own result, unchanged.
\<close>

theorem retrier_result:
  assumes "run = createRetryProxy op onLine"
  shows "1 \<le> calls run \<and> calls run \<le> MAX_RETRIES \<and>
    (case op (calls run - 1) of
       Rejected e \<Rightarrow>
         returned run = \<lparr>data = None, error = Some (formattedError e)\<rparr> \<and>
         normalized_failure (returned run)
     | Resolved r \<Rightarrow>
         if fails_retryably (onLine (calls run - 1)) (Resolved r) then
           calls run = MAX_RETRIES \<and>
           returned run = \<lparr>data = None, error = Some (formattedError (error r))\<rparr> \<and>
           normalized_failure (returned run)
         else returned run = r)"
  unfolding assms retry_loop_unrolled attempt_try_cases
  by (auto simp: MAX_RETRIES_def normalized_failure_formatted fails_retryably_def failure_of_def
       split: outcome.splits)

theorem retrier_result_witness:
  "calls (createRetryProxy always_failing always_online) = 3 \<and>
   always_failing 2 = Rejected (Some failed_to_fetch) \<and>
   returned (createRetryProxy always_failing always_online) =
     \<lparr>data = None, error = Some (formattedError (Some failed_to_fetch))\<rparr> \<and>
   normalized_failure (returned (createRetryProxy always_failing always_online))"
proof -
  have c: "calls (createRetryProxy always_failing always_online) = 3"
    by (simp add: always_failing_retryable retry_loop_exhausted)
  have a: "always_failing 2 = Rejected (Some failed_to_fetch)"
    by (simp add: always_failing_def)
  show ?thesis
    using retrier_result [OF refl, of always_failing always_online]
    by (simp add: c a normalized_failure_formatted)
qed

theorem retrier_passthrough_counterexample:
  "fails_terminally (always_online 0) (always_refused 0) \<and>
   returned (createRetryProxy always_refused always_online) =
     \<lparr>data = None, error = Some permission_denied\<rparr> \<and>
   \<not> normalized_failure (returned (createRetryProxy always_refused always_online))"
proof -
  have t: "attempt_try (always_online 0) (always_refused 0) =
             Return \<lparr>data = None, error = Some permission_denied\<rparr>"
    using attempt_try_terminal [OF always_refused_terminal [of 0]]
    by (auto simp: always_refused_def)
  have n: "\<not> normalized_failure \<lparr>data = None, error = Some permission_denied\<rparr>"
    by (simp add: normalized_failure_def permission_denied_def)
  show ?thesis
    by (simp add: always_refused_terminal retry_loop_unrolled t n)
qed

section \<open>The Resource Access Facade\<close>

lemma dbQuery_cases:
  "dbQuery q =
     Inr (case q of
            Rejected thrown \<Rightarrow> \<lparr>db_data = None, db_error = Some (handleDbError thrown)\<rparr>
          | Resolved r \<Rightarrow>
              (case error r of
                 Some e \<Rightarrow> \<lparr>db_data = None, db_error = Some (handleDbError (Some e))\<rparr>
               | None \<Rightarrow> \<lparr>db_data = data r, db_error = None\<rparr>))"
  by (simp add: dbQuery_def try_catch_def await_def split: outcome.split option.split)

lemma dbQuery_returns: "returns_result (dbQuery q)"
  by (simp add: dbQuery_cases returns_result_def)

lemma chain_of_two_raises:
  "chain c (Builder t) (m1 # m2 # ms) =
     Inl (Some (not_a_function (method_name (if has_method c m1 then m2 else m1))))"
  by (simp add: call_method_def)

lemma chained_query_value:
  "dbQuery_of (chain c (supabase_from t) (m1 # m2 # ms)) =
     Inl (Some (not_a_function (method_name (if has_method c m1 then m2 else m1))))"
  unfolding supabase_from_def chain_of_two_raises by (simp add: dbQuery_of_def)

text \<open>
  C6. \<open>dbQuery\<close> itself returns a \<open>{ data, error }\<close> value for every outcome of what it
  awaits (\<open>dbQuery_returns\<close>), but no operation of the facade reaches it: each builds its
  query by a chain of at least two method calls, and the second call is made on the
  promise that the proxied first call returned. Every operation throws a \<open>TypeError\<close> to
  its caller, whatever the client and the backend do; \<open>flights.getAll\<close> throws
  "order is not a function".
\<close>

theorem facade_operations_raise:
  "\<not> returns_result (flights_getAll c1) \<and>
   \<not> returns_result (flights_getById c2 i2) \<and>
   \<not> returns_result (flights_create c3 p3) \<and>
   \<not> returns_result (flights_update c4 i4 p4) \<and>
   \<not> returns_result (flights_delete c5 i5) \<and>
   \<not> returns_result (companies_getAll c6) \<and>
   \<not> returns_result (companies_getById c7 i7) \<and>
   \<not> returns_result (companies_create c8 p8) \<and>
   \<not> returns_result (companies_update c9 i9 p9) \<and>
   \<not> returns_result (tasks_getByFlight c10 i10) \<and>
   \<not> returns_result (tasks_create c11 p11) \<and>
   \<not> returns_result (tasks_update c12 i12 p12) \<and>
   \<not> returns_result (tasks_delete c13 i13) \<and>
   \<not> returns_result (companyTails_getByCompany c14 c15 n14) \<and>
   \<not> returns_result (companyTails_create c16 i16 t16) \<and>
   \<not> returns_result (companyTails_delete c17 i17 t17) \<and>
   \<not> returns_result (auditLogs_create c18 p18) \<and>
   flights_getAll (unreachable_client :: (unit, unit) client) = Inl (Some (not_a_function ''order''))"
  unfolding flights_getAll_def flights_getById_def flights_create_def flights_update_def
    flights_delete_def companies_getAll_def companies_getById_def companies_create_def
    companies_update_def tasks_getByFlight_def tasks_create_def tasks_update_def
    tasks_delete_def companyTails_getByCompany_def companyTails_create_def
    companyTails_delete_def auditLogs_create_def chained_query_value
  by (simp add: returns_result_def unreachable_client_def builder_has_def method_name_def)

lemma getByCompany_after_failed_lookup:
  "db_data lookup = None \<Longrightarrow>
     getByCompany_after_lookup c' lookup = Inr \<lparr>db_data = Some [], db_error = None\<rparr>"
  by (simp add: getByCompany_after_lookup_def)

text \<open>
  C10. After a lookup without data the function would return the empty list
  (\<open>getByCompany_after_failed_lookup\<close>), but it never gets there:
  \<open>companyTails.getByCompany\<close> throws while it builds the company lookup: \<open>.eq\<close> is
  called on the promise that the proxied \<open>.select()\<close> returned. It returns neither the
  empty list nor anything else, for every company name.
\<close>

theorem getByCompany_raises:
  "\<not> returns_result (companyTails_getByCompany c c' companyName) \<and>
   companyTails_getByCompany (unreachable_client :: (unit, Company) client)
     (unreachable_client :: (unit, string list) client) ''Zenith'' =
     Inl (Some (not_a_function ''eq''))"
  unfolding companyTails_getByCompany_def chained_query_value
  by (simp add: returns_result_def unreachable_client_def builder_has_def method_name_def)

section \<open>The Audit Recorder\<close>

lemma proxied_first_success:
  assumes "op 0 = Resolved r" and "error r = None"
  shows "proxied op onLine = Resolved r"
  using assms by (simp add: proxied_def retry_loop_unrolled attempt_try_def)

text \<open>
  C5. With the client of \<open>supabase.ts\<close> an edit of a flight writes no audit row. The
  proxied \<open>.update(flightData)\<close> is called and, here, the backend carries the update out:
  the promise it returns resolves without error. But \<open>.eq('id', flight.id)\<close> is called on
  that promise and throws inside the \<open>try\<close>, so \<open>onSubmit\<close> ends in its \<open>catch\<close> block and
  the insert into \<open>audit_logs\<close> that follows in the source is never reached: no audit row
  is sent.
\<close>

theorem update_writes_no_audit_row:
  assumes "\<not> date_before (parseDate (form_end_date fv)) (parseDate (form_start_date fv))"
    and "getUser = Inr (Some user)"
    and "has_method cf (Update (make_flightData (Some f) fv user))"
    and "settles cf ''flights'' (Update (make_flightData (Some f) fv user)) 0 = Resolved upd"
    and "error upd = None"
  shows "call_method cf (supabase_from ''flights'') (Update (make_flightData (Some f) fv user)) =
           Inr (Promise (Resolved upd)) \<and>
         onSubmit parseDate getUser cf ca (Some f) fv = (catch_block, [])"
proof -
  let ?fd = "make_flightData (Some f) fv user"
  have "proxied (settles cf ''flights'' (Update ?fd)) (connectivity cf) = Resolved upd"
    using assms(4,5) by (rule proxied_first_success)
  then have sent: "call_method cf (supabase_from ''flights'') (Update ?fd) =
      Inr (Promise (Resolved upd))"
    using assms(3) by (simp add: call_method_def supabase_from_def)
  have "chain cf (supabase_from ''flights'') [Update ?fd, Eq ''id'' (flight_id f)] =
      Inl (Some (not_a_function ''eq''))"
    unfolding supabase_from_def chain_of_two_raises
    using assms(3) by (simp add: method_name_def)
  then have "onSubmit parseDate getUser cf ca (Some f) fv = (catch_block, [])"
    using assms(1,2) by (simp add: onSubmit_def awaited_def)
  then show ?thesis
    using sent by simp
qed

theorem update_writes_no_audit_row_witness:
  "call_method accepting_client (supabase_from ''flights'')
     (Update (make_flightData (Some flight_N123) edit_form alice)) =
     Inr (Promise (Resolved \<lparr>data = None, error = None\<rparr>) :: string Flight receiver) \<and>
   onSubmit parse_dates (Inr (Some alice)) accepting_client accepting_client
     (Some flight_N123) edit_form = (catch_block, [])"
proof -
  have d: "\<not> date_before (parse_dates (form_end_date edit_form))
                (parse_dates (form_start_date edit_form))"
    by (simp add: parse_dates_def edit_form_def date_before_def)
  have h: "has_method (accepting_client :: (flight_data, string Flight) client)
             (Update (make_flightData (Some flight_N123) edit_form alice))"
    by (simp add: accepting_client_def builder_has_def)
  have s: "settles (accepting_client :: (flight_data, string Flight) client) ''flights''
             (Update (make_flightData (Some flight_N123) edit_form alice)) 0 =
           Resolved \<lparr>data = None, error = None\<rparr>"
    by (simp add: accepting_client_def)
  show ?thesis
    using update_writes_no_audit_row
      [OF d refl h s, of accepting_client]
    by simp
qed

section \<open>Lock cleanup\<close>

lemma cleanup_bypass: "l \<in> set (cleanup_old_locks BypassRLS now locks) \<Longrightarrow> \<not> is_old now l"
  by (auto simp: cleanup_old_locks_def locks_deletable_def split: if_splits)

lemma cleanup_authenticated:
  "l \<in> set (cleanup_old_locks (Authenticated uid) now locks) \<Longrightarrow> is_old now l \<Longrightarrow>
     lock_user_id l \<noteq> uid"
  by (auto simp: cleanup_old_locks_def locks_deletable_def split: if_splits)

text \<open>
  C8. A cleanup pass fired by the trigger runs as the client that wrote a lock row, and
  row-level security lets that client delete its own rows only. Here Alice inserts a lock
  while Bob's lock is an hour old: Bob's row is still there after the pass.
\<close>

theorem stale_lock_survives_cleanup:
  "is_old now_1h lock_of_bob \<and>
   cleanup_old_locks (Authenticated ''alice'') now_1h [lock_of_bob] = [lock_of_bob] \<and>
   insert_lock ''alice'' now_1h lock_of_alice [lock_of_bob] = Inr [lock_of_bob, lock_of_alice]"
  by (simp add: is_old_def now_1h_def lock_of_bob_def lock_of_alice_def cleanup_old_locks_def
      locks_deletable_def insert_lock_def interval_15_minutes_def)

section \<open>The flights table\<close>

lemma windows_overlap_sql:
  "windows_overlap a b \<Longrightarrow>
     sql_overlaps (start_date a, end_date a) (start_date b, end_date b)"
  by (auto simp: windows_overlap_def sql_overlaps_def period_def)

lemma windows_overlap_sym: "windows_overlap a b = windows_overlap b a"
  by (simp add: windows_overlap_def max.commute min.commute)

lemma validate_passes:
  assumes "validate_flight_dates NEW flights = Inr row"
  shows "row = NEW \<and> (\<forall>r \<in> set flights. \<not> conflicts_with NEW r)"
  using assms by (auto simp: validate_flight_dates_def list_ex_iff split: if_splits)

lemma checks_pass: "flights_checks NEW = Inr row \<Longrightarrow> row = NEW"
  by (auto simp: flights_checks_def split: if_splits)

lemma no_conflict_no_overlap:
  assumes "\<not> conflicts_with NEW r" "flight_id r \<noteq> flight_id NEW"
    "tail_number r = tail_number NEW" "status r = ''active''"
  shows "\<not> windows_overlap NEW r"
  using assms windows_overlap_sql [of NEW r] by (auto simp: conflicts_with_def)

lemma consistent_insert:
  assumes "consistent flights" "flights_insert NEW flights = Inr flights'"
  shows "consistent flights'"
proof -
  from assms(2) have v: "\<forall>r \<in> set flights. \<not> conflicts_with NEW r"
    and fresh: "flight_id NEW \<notin> set (map flight_id flights)"
    and eq: "flights' = flights @ [NEW]"
    by (auto simp: flights_insert_def split: sum.splits if_splits
        dest!: validate_passes checks_pass)
  have "\<not> windows_overlap NEW r \<and> \<not> windows_overlap r NEW"
    if "r \<in> set flights" "flight_id r \<noteq> flight_id NEW" "tail_number r = tail_number NEW" "status r = ''active''" for r
    using no_conflict_no_overlap [of NEW r] v that windows_overlap_sym [of r NEW] by blast
  then show ?thesis
    using assms(1) fresh unfolding consistent_def eq
    by auto
qed

lemma replace_absent:
  fixes k :: "'a \<Rightarrow> 'b"
  shows "i \<notin> set (map k fs) \<Longrightarrow> map (\<lambda>r. if k r = i then row else r) fs = fs"
  by (induction fs) auto

lemma replace_set:
  fixes k :: "'a \<Rightarrow> 'b"
  shows "set (map (\<lambda>r. if k r = i then row else r) fs) \<subseteq>
     insert row {r \<in> set fs. k r \<noteq> i}"
  by auto

lemma replace_distinct:
  fixes k :: "'a \<Rightarrow> 'b"
  assumes "distinct (map k fs)"
    and "k row \<notin> k ` {r \<in> set fs. k r \<noteq> i}"
  shows "distinct (map k (map (\<lambda>r. if k r = i then row else r) fs))"
  using assms
proof (induction fs)
  case Nil
  then show ?case by simp
next
  case (Cons x xs)
  let ?f = "\<lambda>r. if k r = i then row else r"
  show ?case
  proof (cases "k x = i")
    case True
    then have absent: "i \<notin> set (map k xs)"
      using Cons.prems(1) by auto
    then have same: "map ?f xs = xs"
      by (rule replace_absent)
    have "k row \<notin> set (map k xs)"
      using Cons.prems(2) absent by force
    then show ?thesis
      using True same Cons.prems(1) by simp
  next
    case False
    have ih: "distinct (map k (map ?f xs))"
      using Cons.IH Cons.prems by auto
    have "x \<in> {r \<in> set (x # xs). k r \<noteq> i}"
      using False by simp
    then have "k x \<in> k ` {r \<in> set (x # xs). k r \<noteq> i}"
      by (rule imageI)
    then have ne: "k x \<noteq> k row"
      using Cons.prems(2) by metis
    have old: "k x \<notin> k ` set xs"
      using Cons.prems(1) by auto
    have nin: "k x \<notin> set (map k (map ?f xs))"
    proof
      assume "k x \<in> set (map k (map ?f xs))"
      then obtain y where y: "y \<in> set xs" "k x = k (?f y)"
        by auto
      show False
      proof (cases "k y = i")
        case True
        then show False using y(2) ne by simp
      next
        case False
        then have "k x = k y" using y(2) by simp
        then show False using y(1) old by blast
      qed
    qed
    have "map k (map ?f (x # xs)) = k x # map k (map ?f xs)"
      using False by simp
    then show ?thesis
      using nin ih by (metis distinct.simps(2))
  qed
qed

lemma consistent_update:
  assumes "consistent flights" "flights_update_row i assign flights = Inr flights'"
  shows "consistent flights'"
proof (cases "find (\<lambda>r. flight_id r = i) flights")
  case None
  then show ?thesis
    using assms by (simp add: flights_update_row_def)
next
  case (Some OLD)
  define NEW where "NEW = assign OLD"
  from assms(2) Some have v: "\<forall>r \<in> set flights. \<not> conflicts_with NEW r"
    and fresh: "flight_id NEW \<notin> flight_id ` {r \<in> set flights. flight_id r \<noteq> i}"
    and eq: "flights' = map (\<lambda>r. if flight_id r = i then NEW else r) flights"
    by (auto simp: flights_update_row_def NEW_def split: sum.splits if_splits
        dest!: validate_passes checks_pass)
  have sub: "set flights' \<subseteq> insert NEW {r \<in> set flights. flight_id r \<noteq> i}"
    unfolding eq by (rule replace_set)
  have d: "distinct (map flight_id flights')"
    unfolding eq using assms(1) fresh by (intro replace_distinct) (auto simp: consistent_def)
  have new: "\<not> windows_overlap NEW r \<and> \<not> windows_overlap r NEW"
    if "r \<in> set flights" "flight_id r \<noteq> flight_id NEW" "tail_number r = tail_number NEW"
      "status r = ''active''" for r
    using no_conflict_no_overlap [of NEW r] v that windows_overlap_sym [of r NEW] by blast
  have "\<not> windows_overlap a b"
    if "a \<in> set flights'" "b \<in> set flights'" "flight_id a \<noteq> flight_id b"
      "tail_number a = tail_number b" "status a = ''active''" "status b = ''active''" for a b
  proof -
    from that(1) sub have a: "a = NEW \<or> a \<in> set flights" by auto
    from that(2) sub have b: "b = NEW \<or> b \<in> set flights" by auto
    show ?thesis
      using a b that(3-6) new assms(1) unfolding consistent_def by metis
  qed
  then show ?thesis
    using d unfolding consistent_def by blast
qed

lemma consistent_delete: "consistent flights \<Longrightarrow> consistent (flights_delete_row i flights)"
  by (auto simp: consistent_def flights_delete_row_def distinct_map_filter)

lemma consistent_execute: "consistent flights \<Longrightarrow> consistent (execute flights stmt)"
  by (cases stmt)
     (auto split: sum.splits intro: consistent_insert consistent_update consistent_delete)

lemma consistent_foldl: "consistent flights \<Longrightarrow> consistent (foldl execute flights stmts)"
  by (induction stmts arbitrary: flights) (simp_all add: consistent_execute)

lemma consistent_history: "consistent (history stmts)"
  unfolding history_def by (rule consistent_foldl) (simp add: consistent_def)

lemma consistent_no_pair: "consistent flights \<Longrightarrow> \<not> overlapping_pair flights i j"
proof
  assume c: "consistent flights" and p: "overlapping_pair flights i j"
  then have ij: "i < length flights" "j < length flights" "i \<noteq> j"
    by (auto simp: overlapping_pair_def)
  have "distinct (map flight_id flights)"
    using c by (simp add: consistent_def)
  then have "flight_id (flights ! i) \<noteq> flight_id (flights ! j)"
    using ij by (metis length_map nth_eq_iff_index_eq nth_map)
  moreover have "flights ! i \<in> set flights" "flights ! j \<in> set flights"
    using ij by simp_all
  ultimately show False
    using c p unfolding consistent_def overlapping_pair_def by blast
qed

lemma insert_rejected:
  assumes "r \<in> set flights" "tail_number r = tail_number NEW" "flight_id r \<noteq> flight_id NEW"
    "status r = ''active''" "windows_overlap NEW r"
  shows "flights_insert NEW flights =
     Inl (RaisedException
            (''Flight dates overlap with existing flight for tail number '' @ tail_number NEW))"
proof -
  have "conflicts_with NEW r"
    using assms windows_overlap_sql [of NEW r] by (simp add: conflicts_with_def)
  then have "list_ex (conflicts_with NEW) flights"
    using assms(1) by (auto simp: list_ex_iff)
  then show ?thesis
    by (simp add: flights_insert_def validate_flight_dates_def)
qed

lemma proxied_constant_error:
  assumes "error r = Some e"
  shows "proxied (\<lambda>n. Resolved r) onLine = Resolved r \<or>
         proxied (\<lambda>n. Resolved r) onLine =
           Resolved \<lparr>data = None, error = Some (formattedError (Some e))\<rparr>"
  using assms
  by (auto simp: proxied_def retry_loop_unrolled attempt_try_cases)

lemma overlap_message_classified:
  assumes "message e = Some (''Flight dates overlap with existing flight for tail number '' @ t)"
  shows "handleDbError (Some e) = ''This flight overlaps with another flight for the same aircraft.''"
    and "handleDbError (Some (formattedError (Some e))) =
           ''This flight overlaps with another flight for the same aircraft.''"
proof -
  have i: "js_includes ''Flight dates overlap with existing flight for tail number '' ''dates overlap''"
    by simp
  have a: "js_includes (''Flight dates overlap with existing flight for tail number '' @ t) ''dates overlap''"
    using js_includes_append_mid [OF i, of "[]" t] by simp
  then show "handleDbError (Some e) = ''This flight overlaps with another flight for the same aircraft.''"
    using assms by (simp add: handleDbError_def)
  have "js_includes (''Database operation failed: '' @
       (''Flight dates overlap with existing flight for tail number '' @ t) @
        ''. Please check your connection and try again.'') ''dates overlap''"
    using a by (rule js_includes_append_mid)
  then show "handleDbError (Some (formattedError (Some e))) =
           ''This flight overlaps with another flight for the same aircraft.''"
    using assms by (simp add: handleDbError_def formattedError_def errorMessage_def)
qed

text \<open>
  C4. Inserting a flight whose window \<open>[start, end)\<close> overlaps that of an active flight of
  the same tail number already in the table is refused by the trigger, with the message
  "Flight dates overlap with existing flight for tail number ..."; and in every table
  reached from the empty one by inserts, updates and deletes, no two active rows of one
  tail number have overlapping windows. The promise that the proxied \<open>.insert(flight)\<close>
  returns would be turned by \<open>dbQuery\<close> into the message "This flight overlaps with
  another flight for the same aircraft.", but the facade's \<open>create\<close> calls \<open>.select()\<close> on
  that promise and throws a \<open>TypeError\<close> instead.
\<close>

theorem overlapping_flight_rejected:
  assumes "r \<in> set flights" and "tail_number r = tail_number NEW"
    and "flight_id r \<noteq> flight_id NEW" and "status r = ''active''"
    and "windows_overlap NEW r"
    and "has_method c (Insert NEW)"
    and "settles c ''flights'' (Insert NEW) = (\<lambda>n. insert_response NEW flights)"
  shows "flights_insert NEW flights =
           Inl (RaisedException
                  (''Flight dates overlap with existing flight for tail number '' @ tail_number NEW)) \<and>
         (\<exists>p. call_method c (supabase_from ''flights'') (Insert NEW) = Inr (Promise p) \<and>
              dbQuery p =
                Inr \<lparr>db_data = None,
                     db_error =
                       Some ''This flight overlaps with another flight for the same aircraft.''\<rparr>) \<and>
         flights_create c NEW = Inl (Some (not_a_function ''select'')) \<and>
         \<not> overlapping_pair (history stmts) i j"
proof -
  let ?m = "''Flight dates overlap with existing flight for tail number '' @ tail_number NEW"
  let ?e = "structured_error (RaisedException ?m)"
  let ?p = "proxied (\<lambda>n. insert_response NEW flights) (connectivity c)"
  have rej: "flights_insert NEW flights = Inl (RaisedException ?m)"
    using assms(1-5) by (rule insert_rejected)
  then have resp: "insert_response NEW flights = Resolved \<lparr>data = None, error = Some ?e\<rparr>"
    by (simp add: insert_response_def)
  have msg: "message ?e = Some ?m"
    by (simp add: structured_error_def pg_message_def)
  have "?p = Resolved \<lparr>data = None, error = Some ?e\<rparr> \<or>
        ?p = Resolved \<lparr>data = None, error = Some (formattedError (Some ?e))\<rparr>"
    unfolding resp by (rule proxied_constant_error) simp
  then have cls: "dbQuery ?p =
      Inr \<lparr>db_data = None,
           db_error = Some ''This flight overlaps with another flight for the same aircraft.''\<rparr>"
    using overlap_message_classified [OF msg] by (auto simp: dbQuery_cases)
  have call: "call_method c (supabase_from ''flights'') (Insert NEW) = Inr (Promise ?p)"
    using assms(6,7) by (simp add: call_method_def supabase_from_def)
  have raise: "flights_create c NEW = Inl (Some (not_a_function ''select''))"
    unfolding flights_create_def chained_query_value
    using assms(6) by (simp add: method_name_def)
  have "\<not> overlapping_pair (history stmts) i j"
    using consistent_history by (rule consistent_no_pair)
  then show ?thesis
    using rej cls call raise by blast
qed

theorem overlapping_flight_rejected_witness:
  "windows_overlap row_second row_first \<and>
   has_method client_of_first (Insert row_second) \<and>
   flights_insert row_second [row_first] =
     Inl (RaisedException ''Flight dates overlap with existing flight for tail number N123'') \<and>
   flights_create client_of_first row_second = Inl (Some (not_a_function ''select''))"
proof -
  have w: "windows_overlap row_second row_first"
    by (simp add: windows_overlap_def row_first_def row_second_def)
  have t: "tail_number row_first = tail_number row_second"
    "flight_id row_first \<noteq> flight_id row_second" "status row_first = ''active''"
    "tail_number row_second = ''N123''"
    by (simp_all add: row_first_def row_second_def)
  have h: "has_method client_of_first (Insert row_second)"
    by (simp add: client_of_first_def builder_has_def)
  have s: "settles client_of_first ''flights'' (Insert row_second) =
             (\<lambda>n. insert_response row_second [row_first])"
    by (simp add: client_of_first_def)
  show ?thesis
    using overlapping_flight_rejected
      [of row_first "[row_first]" row_second client_of_first, OF _ t(1-3) w h s]
    by (simp add: t(4) w h)
qed

end
